theory Spec2Isabelle
  imports Complex_Main
begin

section \<open>Exceptions and outcomes\<close>

text \<open>
  The Python exceptions the modelled code can raise. A \<open>ValueError\<close> carries the fixed
  prefix of its message (the formatted amounts that follow the prefix are left out).
\<close>

datatype error =
    ValueError string
  | ZeroDivisionError
  | IndexError
  | TypeError

text \<open>The raise sites of \<open>models/position.py\<close>, under the names the specification gives them.\<close>

definition InsufficientCash :: error where
  "InsufficientCash = ValueError ''Insufficient cash''"

definition InsufficientCollateral :: error where
  "InsufficientCollateral = ValueError ''Insufficient cash for cash-secured put''"

definition InsufficientCoverage :: error where
  "InsufficientCoverage = ValueError ''Insufficient shares to sell covered call''"

definition NotInList :: error where
  "NotInList = ValueError ''list.remove(x): x not in list''"

text \<open>
  A call either returns a value or raises; in both cases it leaves a state behind, and the
  state left behind by a raise is whatever had been mutated up to that point.
\<close>

datatype ('v, 's) outcome = Returns 'v 's | Raises error 's

fun state_of :: "('v, 's) outcome \<Rightarrow> 's" where
  "state_of (Returns v s) = s"
| "state_of (Raises e s) = s"

section \<open>Pricing model (\<open>models/black_scholes.py\<close>)\<close>

text \<open>
  Python floats are modelled by the reals. \<open>scipy.stats.norm.cdf\<close> is a library function
  and is a parameter \<open>cdf\<close> of the model. \<open>S / K\<close> on Python floats raises
  \<open>ZeroDivisionError\<close> when \<open>K\<close> is zero.
\<close>

definition calculate_d1 :: "real \<Rightarrow> real \<Rightarrow> real \<Rightarrow> real \<Rightarrow> real \<Rightarrow> error + real" where
  "calculate_d1 S K T r sigma =
     (if K = 0 then Inl ZeroDivisionError
      else Inr ((ln (S / K) + (r + 0.5 * sigma\<^sup>2) * T) / (sigma * sqrt T)))"

definition calculate_d2 :: "real \<Rightarrow> real \<Rightarrow> real \<Rightarrow> real" where
  "calculate_d2 d1 sigma T = d1 - sigma * sqrt T"

definition call_price ::
  "(real \<Rightarrow> real) \<Rightarrow> real \<Rightarrow> real \<Rightarrow> real \<Rightarrow> real \<Rightarrow> real \<Rightarrow> error + real" where
  "call_price cdf S K T r sigma =
     (if T \<le> 0 then Inr (max (S - K) 0)
      else case calculate_d1 S K T r sigma of
             Inl e \<Rightarrow> Inl e
           | Inr d1 \<Rightarrow>
               (let d2 = calculate_d2 d1 sigma T;
                    call = S * cdf d1 - K * exp (- r * T) * cdf d2
                in Inr (max call 0)))"

definition put_price ::
  "(real \<Rightarrow> real) \<Rightarrow> real \<Rightarrow> real \<Rightarrow> real \<Rightarrow> real \<Rightarrow> real \<Rightarrow> error + real" where
  "put_price cdf S K T r sigma =
     (if T \<le> 0 then Inr (max (K - S) 0)
      else case calculate_d1 S K T r sigma of
             Inl e \<Rightarrow> Inl e
           | Inr d1 \<Rightarrow>
               (let d2 = calculate_d2 d1 sigma T;
                    put = K * exp (- r * T) * cdf (- d2) - S * cdf (- d1)
                in Inr (max put 0)))"

definition option_price ::
  "(real \<Rightarrow> real) \<Rightarrow> real \<Rightarrow> real \<Rightarrow> real \<Rightarrow> real \<Rightarrow> real \<Rightarrow> string \<Rightarrow> error + real" where
  "option_price cdf S K T r sigma option_type =
     (if option_type = ''call'' then call_price cdf S K T r sigma
      else put_price cdf S K T r sigma)"

section \<open>Strike generator (\<open>generate_strike_prices\<close>)\<close>





section \<open>Position entities (\<open>models/position.py\<close>)\<close>

text \<open>
  A \<open>datetime\<close> is a point on a linear time axis. An \<open>OptionsPosition\<close> is a mutable
  object that the portfolio's lists share with the caller, so the lists hold
  references and a store maps each reference to the object's current fields.
\<close>

type_synonym datetime = int
type_synonym ref = nat

datatype PositionStatus = OPEN | EXPIRED_WORTHLESS | ASSIGNED | CALLED_AWAY | CLOSED

text \<open>
  \<open>entry_date\<close> is optional because the engine stores its current date there, which is
  \<open>None\<close> before \<open>initialize\<close>.
\<close>

record OptionsPosition =
  symbol :: string
  option_type :: string
  strike :: real
  expiration :: datetime
  premium_received :: real
  contracts :: int
  entry_date :: "datetime option"
  status :: PositionStatus
  exit_date :: "datetime option"
  stock_price_at_entry :: real
  stock_price_at_exit :: real

type_synonym store = "ref \<Rightarrow> OptionsPosition"

definition total_premium :: "OptionsPosition \<Rightarrow> real" where
  "total_premium p = premium_received p * of_int (contracts p) * 100"

definition is_expired :: "OptionsPosition \<Rightarrow> datetime \<Rightarrow> bool" where
  "is_expired p current_date = (expiration p \<le> current_date)"

record StockPosition =
  stk_symbol :: string
  shares :: int
  cost_basis :: real
  acquisition_date :: datetime
  assigned_from_put :: bool

section \<open>Portfolio (\<open>models/position.py\<close>)\<close>

text \<open>One entry of \<open>transaction_history\<close>; \<open>txn_type\<close> is the dictionary's \<open>'type'\<close>.\<close>

record Transaction =
  txn_type :: string
  amount :: real
  description :: string
  timestamp :: datetime

record Portfolio =
  initial_capital :: real
  cash :: real
  stock_positions :: "string \<rightharpoonup> StockPosition"
  options_positions :: "ref list"
  closed_positions :: "ref list"
  transaction_history :: "Transaction list"

type_synonym pstate = "store \<times> Portfolio"

definition Portfolio_init :: "real \<Rightarrow> Portfolio" where
  "Portfolio_init capital =
     \<lparr>initial_capital = capital, cash = capital, stock_positions = Map.empty,
      options_positions = [], closed_positions = [], transaction_history = []\<rparr>"

text \<open>An integer inside an f-string: its decimal digits.\<close>

function show_nat :: "nat \<Rightarrow> string" where
  "show_nat n =
     (if n < 10 then [char_of (48 + n)]
      else show_nat (n div 10) @ [char_of (48 + n mod 10)])"
  by pat_completeness auto
termination
  by (relation "measure id") auto

declare show_nat.simps [simp del]

definition show_int :: "int \<Rightarrow> string" where
  "show_int i = (if i < 0 then CHR ''-'' # show_nat (nat (- i)) else show_nat (nat i))"

text \<open>
  \<open>now\<close> is the reading of \<open>datetime.now()\<close> that the call makes; it is an input of
  the model.
\<close>

definition add_cash :: "datetime \<Rightarrow> Portfolio \<Rightarrow> real \<Rightarrow> string \<Rightarrow> Portfolio" where
  "add_cash now pf amt descr =
     pf\<lparr>cash := cash pf + amt,
        transaction_history := transaction_history pf @
          [\<lparr>txn_type = ''cash_in'', amount = amt, description = descr, timestamp = now\<rparr>]\<rparr>"

definition remove_cash ::
  "datetime \<Rightarrow> Portfolio \<Rightarrow> real \<Rightarrow> string \<Rightarrow> (unit, Portfolio) outcome" where
  "remove_cash now pf amt descr =
     (if cash pf < amt then Raises InsufficientCash pf
      else Returns ()
        (pf\<lparr>cash := cash pf - amt,
            transaction_history := transaction_history pf @
              [\<lparr>txn_type = ''cash_out'', amount = amt, description = descr,
                timestamp = now\<rparr>]\<rparr>))"

text \<open>
  \<open>list.remove(x)\<close>: delete the first element that is \<open>x\<close> or compares equal to it
  (a dataclass compares field by field); \<open>None\<close> stands for the \<open>ValueError\<close> raised
  when there is none.
\<close>

fun list_remove :: "store \<Rightarrow> ref list \<Rightarrow> ref \<Rightarrow> ref list option" where
  "list_remove h [] r = None"
| "list_remove h (e # es) r =
     (if e = r \<or> h e = h r then Some es
      else map_option ((#) e) (list_remove h es r))"

definition sell_put :: "datetime \<Rightarrow> pstate \<Rightarrow> ref \<Rightarrow> (unit, pstate) outcome" where
  "sell_put now s r =
     (let h = fst s; pf = snd s; position = h r;
          required_cash = strike position * of_int (contracts position) * 100
      in if cash pf < required_cash then Raises InsufficientCollateral s
         else
           let premium = total_premium position;
               pf1 = add_cash now pf premium
                       (''Premium from selling '' @ show_int (contracts position) @ '' ''
                          @ symbol position @ '' put(s)'')
           in Returns () (h, pf1\<lparr>options_positions := options_positions pf1 @ [r]\<rparr>))"

definition sell_call :: "datetime \<Rightarrow> pstate \<Rightarrow> ref \<Rightarrow> (unit, pstate) outcome" where
  "sell_call now s r =
     (let h = fst s; pf = snd s; position = h r;
          stock_pos = stock_positions pf (symbol position)
      in if (case stock_pos of None \<Rightarrow> True
             | Some sp \<Rightarrow> shares sp < contracts position * 100)
         then Raises InsufficientCoverage s
         else
           let premium = total_premium position;
               pf1 = add_cash now pf premium
                       (''Premium from selling '' @ show_int (contracts position) @ '' ''
                          @ symbol position @ '' call(s)'')
           in Returns () (h, pf1\<lparr>options_positions := options_positions pf1 @ [r]\<rparr>))"

definition assign_put ::
  "datetime \<Rightarrow> pstate \<Rightarrow> ref \<Rightarrow> real \<Rightarrow> datetime \<Rightarrow> (unit, pstate) outcome" where
  "assign_put now s r stock_price current_date =
     (let h = fst s; pf = snd s; position = h r;
          cost = strike position * of_int (contracts position) * 100;
          shrs = contracts position * 100
      in case remove_cash now pf cost
                (''Put assigned: bought '' @ show_int shrs @ '' shares of '' @ symbol position) of
           Raises e pf0 \<Rightarrow> Raises e (h, pf0)
         | Returns u pf1 \<Rightarrow>
             let stock_pos = \<lparr>stk_symbol = symbol position, shares = shrs,
                              cost_basis = strike position,
                              acquisition_date = current_date, assigned_from_put = True\<rparr>;
                 pf2 = pf1\<lparr>stock_positions := (stock_positions pf1)(symbol position \<mapsto> stock_pos)\<rparr>;
                 h1 = h(r := position\<lparr>status := ASSIGNED, exit_date := Some current_date,
                                       stock_price_at_exit := stock_price\<rparr>);
                 pf3 = pf2\<lparr>closed_positions := closed_positions pf2 @ [r]\<rparr>
             in case list_remove h1 (options_positions pf3) r of
                  None \<Rightarrow> Raises NotInList (h1, pf3)
                | Some rest \<Rightarrow> Returns () (h1, pf3\<lparr>options_positions := rest\<rparr>))"

definition assign_call ::
  "datetime \<Rightarrow> pstate \<Rightarrow> ref \<Rightarrow> real \<Rightarrow> datetime \<Rightarrow> (unit, pstate) outcome" where
  "assign_call now s r stock_price current_date =
     (let h = fst s; pf = snd s; position = h r;
          proceeds = strike position * of_int (contracts position) * 100;
          shrs = contracts position * 100;
          pf1 = (case stock_positions pf (symbol position) of
                   None \<Rightarrow> pf
                 | Some sp \<Rightarrow>
                     if shares sp = shrs
                     then pf\<lparr>stock_positions := (stock_positions pf)(symbol position := None)\<rparr>
                     else pf\<lparr>stock_positions :=
                            (stock_positions pf)(symbol position \<mapsto> sp\<lparr>shares := shares sp - shrs\<rparr>)\<rparr>);
          pf2 = add_cash now pf1 proceeds
                  (''Call assigned: sold '' @ show_int shrs @ '' shares of '' @ symbol position);
          h1 = h(r := position\<lparr>status := CALLED_AWAY, exit_date := Some current_date,
                                stock_price_at_exit := stock_price\<rparr>);
          pf3 = pf2\<lparr>closed_positions := closed_positions pf2 @ [r]\<rparr>
      in case list_remove h1 (options_positions pf3) r of
           None \<Rightarrow> Raises NotInList (h1, pf3)
         | Some rest \<Rightarrow> Returns () (h1, pf3\<lparr>options_positions := rest\<rparr>))"

definition expire_worthless :: "pstate \<Rightarrow> ref \<Rightarrow> datetime \<Rightarrow> (unit, pstate) outcome" where
  "expire_worthless s r current_date =
     (let h = fst s; pf = snd s; position = h r;
          h1 = h(r := position\<lparr>status := EXPIRED_WORTHLESS, exit_date := Some current_date\<rparr>);
          pf1 = pf\<lparr>closed_positions := closed_positions pf @ [r]\<rparr>
      in case list_remove h1 (options_positions pf1) r of
           None \<Rightarrow> Raises NotInList (h1, pf1)
         | Some rest \<Rightarrow> Returns () (h1, pf1\<lparr>options_positions := rest\<rparr>))"

text \<open>
  Sequences of portfolio operations. A \<open>call\<close> names one operation with its arguments;
  \<open>perform\<close> dispatches it, \<open>run\<close> lists the states after every prefix of a sequence of
  calls (each paired with the clock reading it makes), continuing from whatever state a
  raising call leaves behind, and \<open>holds_at_each_call\<close> says that a condition holds in
  the state in which each call is made.
\<close>

datatype call =
    SellPut ref
  | SellCall ref
  | AssignPut ref real datetime
  | AssignCall ref real datetime
  | ExpireWorthless ref datetime

fun perform :: "datetime \<Rightarrow> pstate \<Rightarrow> call \<Rightarrow> (unit, pstate) outcome" where
  "perform now s (SellPut r) = sell_put now s r"
| "perform now s (SellCall r) = sell_call now s r"
| "perform now s (AssignPut r stock_price d) = assign_put now s r stock_price d"
| "perform now s (AssignCall r stock_price d) = assign_call now s r stock_price d"
| "perform now s (ExpireWorthless r d) = expire_worthless s r d"

fun run :: "pstate \<Rightarrow> (datetime \<times> call) list \<Rightarrow> pstate list" where
  "run s [] = [s]"
| "run s (tc # cs) = s # run (state_of (perform (fst tc) s (snd tc))) cs"






section \<open>Simulation engine (\<open>core/simulator.py\<close>, \<open>config.py\<close>)\<close>

definition INITIAL_CAPITAL :: real where
  "INITIAL_CAPITAL = 100000"

definition RISK_FREE_RATE :: real where
  "RISK_FREE_RATE = 45 / 1000"

definition STOCKS :: "string list" where
  "STOCKS = [''AAPL'', ''MSFT'', ''JNJ'', ''KO'', ''XOM'', ''V'', ''GOOG'', ''AXP'', ''WMT'', ''PG'']"

text \<open>
  What the engine reads from outside: the market data provider (\<open>DataFetcher\<close>, which
  is handed the engine's optional current date), the library's normal distribution
  function, and the wall clock.
\<close>

record environment =
  get_available_dates :: "string \<Rightarrow> datetime list"
  get_price_at_date :: "string \<Rightarrow> datetime option \<Rightarrow> real"
  calculate_historical_volatility :: "string \<Rightarrow> datetime option \<Rightarrow> real"
  norm_cdf :: "real \<Rightarrow> real"
  clock_now :: datetime

record WheelSimulator =
  portfolio :: Portfolio
  current_date :: "datetime option"
  trading_dates :: "datetime list"
  current_date_index :: int

text \<open>The engine together with the store of position objects and the next free reference.\<close>

record machine =
  heap :: store
  next_ref :: ref
  sim :: WheelSimulator

definition WheelSimulator_init :: WheelSimulator where
  "WheelSimulator_init =
     \<lparr>portfolio = Portfolio_init INITIAL_CAPITAL, current_date = None,
      trading_dates = [], current_date_index = 0\<rparr>"

text \<open>
  \<open>xs[i]\<close>: a negative index counts from the end; \<open>None\<close> stands for \<open>IndexError\<close>.
\<close>

definition list_index :: "'a list \<Rightarrow> int \<Rightarrow> 'a option" where
  "list_index xs i =
     (if 0 \<le> i \<and> i < int (length xs) then Some (xs ! nat i)
      else if i < 0 \<and> - int (length xs) \<le> i then Some (xs ! nat (int (length xs) + i))
      else None)"

definition initialize :: "environment \<Rightarrow> machine \<Rightarrow> (unit, machine) outcome" where
  "initialize env m =
     (let first_symbol = hd STOCKS;
          s1 = (sim m)\<lparr>trading_dates := get_available_dates env first_symbol\<rparr>
      in if trading_dates s1 = []
         then Raises (ValueError ''No trading dates available'') (m\<lparr>sim := s1\<rparr>)
         else Returns ()
           (m\<lparr>sim := s1\<lparr>current_date := Some (hd (trading_dates s1)),
                         current_date_index := 0\<rparr>\<rparr>))"

text \<open>The dictionaries appended to \<open>expired_events\<close>, one constructor per \<open>'type'\<close>.\<close>

datatype event =
    put_assigned string real int real real
  | expired_worthless string real string real real
  | call_assigned string real int real real

definition with_pstate :: "machine \<Rightarrow> pstate \<Rightarrow> machine" where
  "with_pstate m s = m\<lparr>heap := fst s, sim := (sim m)\<lparr>portfolio := snd s\<rparr>\<rparr>"

text \<open>
  The loop of \<open>_process_expirations\<close> over the snapshot \<open>list(options_positions)\<close>.
  Comparing the current date \<open>None\<close> with a datetime raises \<open>TypeError\<close>; an exception
  of a portfolio operation is not caught.
\<close>

fun process_positions ::
  "environment \<Rightarrow> ref list \<Rightarrow> machine \<Rightarrow> event list \<Rightarrow> (event list, machine) outcome" where
  "process_positions env [] m expired_events = Returns expired_events m"
| "process_positions env (r # rs) m expired_events =
     (case current_date (sim m) of
        None \<Rightarrow> Raises TypeError m
      | Some cd \<Rightarrow>
          let position = heap m r in
          if is_expired position cd then
            let stock_price = get_price_at_date env (symbol position) (Some cd) in
            if option_type position = ''put'' then
              if stock_price < strike position then
                case assign_put (clock_now env) (heap m, portfolio (sim m)) r stock_price cd of
                  Raises e s \<Rightarrow> Raises e (with_pstate m s)
                | Returns u s \<Rightarrow>
                    let p = fst s r in
                    process_positions env rs (with_pstate m s)
                      (expired_events @
                         [put_assigned (symbol p) (strike p) (contracts p * 100)
                            (strike p * of_int (contracts p) * 100) stock_price])
              else
                case expire_worthless (heap m, portfolio (sim m)) r cd of
                  Raises e s \<Rightarrow> Raises e (with_pstate m s)
                | Returns u s \<Rightarrow>
                    let p = fst s r in
                    process_positions env rs (with_pstate m s)
                      (expired_events @
                         [expired_worthless (symbol p) (strike p) ''PUT''
                            (total_premium p) stock_price])
            else if option_type position = ''call'' then
              if strike position < stock_price then
                case assign_call (clock_now env) (heap m, portfolio (sim m)) r stock_price cd of
                  Raises e s \<Rightarrow> Raises e (with_pstate m s)
                | Returns u s \<Rightarrow>
                    let p = fst s r in
                    process_positions env rs (with_pstate m s)
                      (expired_events @
                         [call_assigned (symbol p) (strike p) (contracts p * 100)
                            (strike p * of_int (contracts p) * 100) stock_price])
              else
                case expire_worthless (heap m, portfolio (sim m)) r cd of
                  Raises e s \<Rightarrow> Raises e (with_pstate m s)
                | Returns u s \<Rightarrow>
                    let p = fst s r in
                    process_positions env rs (with_pstate m s)
                      (expired_events @
                         [expired_worthless (symbol p) (strike p) ''CALL''
                            (total_premium p) stock_price])
            else process_positions env rs m expired_events
          else process_positions env rs m expired_events)"

definition process_expirations :: "environment \<Rightarrow> machine \<Rightarrow> (event list, machine) outcome" where
  "process_expirations env m =
     process_positions env (options_positions (portfolio (sim m))) m []"

definition advance_day ::
  "environment \<Rightarrow> machine \<Rightarrow> int \<Rightarrow> (bool \<times> event list, machine) outcome" where
  "advance_day env m days =
     (let s1 = (sim m)\<lparr>current_date_index := current_date_index (sim m) + days\<rparr>
      in if int (length (trading_dates s1)) \<le> current_date_index s1
         then Returns (False, [])
                (m\<lparr>sim := s1\<lparr>current_date_index := int (length (trading_dates s1)) - 1\<rparr>\<rparr>)
         else case list_index (trading_dates s1) (current_date_index s1) of
                None \<Rightarrow> Raises IndexError (m\<lparr>sim := s1\<rparr>)
              | Some d \<Rightarrow>
                  (case process_expirations env (m\<lparr>sim := s1\<lparr>current_date := Some d\<rparr>\<rparr>) of
                     Raises e m' \<Rightarrow> Raises e m'
                   | Returns expired_events m' \<Rightarrow> Returns (True, expired_events) m'))"

text \<open>
  \<open>sell_put_option\<close>: the new \<open>OptionsPosition\<close> object is stored at the next free
  reference; only a \<open>ValueError\<close> of \<open>Portfolio.sell_put\<close> is caught and turned into
  the result \<open>False\<close>.
\<close>

definition sell_put_option ::
  "environment \<Rightarrow> machine \<Rightarrow> string \<Rightarrow> real \<Rightarrow> int \<Rightarrow> int \<Rightarrow> (bool, machine) outcome" where
  "sell_put_option env m smb strk days_to_expiration cnt =
     (let s = sim m;
          stock_price = get_price_at_date env smb (current_date s);
          volatility = calculate_historical_volatility env smb (current_date s);
          T = of_int days_to_expiration / 365
      in case put_price (norm_cdf env) stock_price strk T RISK_FREE_RATE volatility of
           Inl e \<Rightarrow> Raises e m
         | Inr premium \<Rightarrow>
             let future_index = min (current_date_index s + days_to_expiration)
                                    (int (length (trading_dates s)) - 1)
             in case list_index (trading_dates s) future_index of
                  None \<Rightarrow> Raises IndexError m
                | Some expiry \<Rightarrow>
                    let r = next_ref m;
                        position = \<lparr>symbol = smb, option_type = ''put'', strike = strk,
                                     expiration = expiry, premium_received = premium,
                                     contracts = cnt, entry_date = current_date s,
                                     status = OPEN, exit_date = None,
                                     stock_price_at_entry = stock_price,
                                     stock_price_at_exit = 0\<rparr>;
                        m1 = m\<lparr>heap := (heap m)(r := position), next_ref := Suc r\<rparr>
                    in case sell_put (clock_now env) (heap m1, portfolio s) r of
                         Returns u s' \<Rightarrow> Returns True (with_pstate m1 s')
                       | Raises (ValueError msg) s' \<Rightarrow> Returns False (with_pstate m1 s')
                       | Raises e s' \<Rightarrow> Raises e (with_pstate m1 s'))"

text \<open>
  A series of \<open>advance_day\<close> calls, each made in the state the previous one left, with
  the outcome of every call; and the state an overshooting call leaves: the index at the
  last position, everything else as before.
\<close>

fun advance_days ::
  "environment \<Rightarrow> machine \<Rightarrow> int list \<Rightarrow> (bool \<times> event list, machine) outcome list" where
  "advance_days env m [] = []"
| "advance_days env m (n # ns) =
     advance_day env m n # advance_days env (state_of (advance_day env m n)) ns"

definition clamped :: "machine \<Rightarrow> machine" where
  "clamped m = m\<lparr>sim := (sim m)\<lparr>current_date_index := int (length (trading_dates (sim m))) - 1\<rparr>\<rparr>"

section \<open>Invariants and example states\<close>

text \<open>Every stock holding is stored under its own symbol.\<close>

definition keyed_by_symbol :: "Portfolio \<Rightarrow> bool" where
  "keyed_by_symbol pf = (\<forall>k sp. stock_positions pf k = Some sp \<longrightarrow> stk_symbol sp = k)"

text \<open>Contracts and states at which the theorems below are instantiated.\<close>

definition aapl_put :: OptionsPosition where
  "aapl_put =
     \<lparr>symbol = ''AAPL'', option_type = ''put'', strike = 50, expiration = 30,
      premium_received = 2, contracts = 1, entry_date = Some 0, status = OPEN,
      exit_date = None, stock_price_at_entry = 52, stock_price_at_exit = 0\<rparr>"

definition aapl_call :: OptionsPosition where
  "aapl_call =
     \<lparr>symbol = ''AAPL'', option_type = ''call'', strike = 55, expiration = 30,
      premium_received = 1, contracts = 1, entry_date = Some 0, status = OPEN,
      exit_date = None, stock_price_at_entry = 52, stock_price_at_exit = 0\<rparr>"

definition fifty_shares :: StockPosition where
  "fifty_shares =
     \<lparr>stk_symbol = ''AAPL'', shares = 50, cost_basis = 40, acquisition_date = 0,
      assigned_from_put = False\<rparr>"

definition example_environment :: "real \<Rightarrow> environment" where
  "example_environment price =
     \<lparr>get_available_dates = (\<lambda>_. [0, 10, 20, 30]), get_price_at_date = (\<lambda>_ _. price),
      calculate_historical_volatility = (\<lambda>_ _. 3 / 10), norm_cdf = (\<lambda>_. 1 / 2),
      clock_now = 7\<rparr>"

definition example_machine :: "store \<Rightarrow> Portfolio \<Rightarrow> nat \<Rightarrow> machine" where
  "example_machine h pf i =
     \<lparr>heap = h, next_ref = 1,
      sim = \<lparr>portfolio = pf, current_date = Some ([0, 10, 20, 30] ! i),
              trading_dates = [0, 10, 20, 30], current_date_index = int i\<rparr>\<rparr>"


definition two_puts :: store where
  "two_puts = (\<lambda>_. aapl_put)(1 := aapl_put\<lparr>contracts := 2\<rparr>)"

definition two_assignments :: "(datetime \<times> call) list" where
  "two_assignments =
     [(1, SellPut 0), (2, AssignPut 0 45 30), (3, SellPut 1), (4, AssignPut 1 45 30)]"

definition hundred_shares :: StockPosition where
  "hundred_shares =
     \<lparr>stk_symbol = ''AAPL'', shares = 100, cost_basis = 50, acquisition_date = 0,
      assigned_from_put = True\<rparr>"

text \<open>A function with the symmetry of a distribution function, \<open>cdf (- x) = 1 - cdf x\<close>.\<close>

definition example_cdf :: "real \<Rightarrow> real" where
  "example_cdf x = 1 / 2 + x / (2 * (1 + \<bar>x\<bar>))"

section \<open>Theorems\<close>

text \<open>
  C4. With time to expiry \<open>T \<le> 0\<close> the price is exactly the intrinsic value,
  \<open>max (S - K) 0\<close> for a call and \<open>max (K - S) 0\<close> for a put, both through
  \<open>call_price\<close>/\<open>put_price\<close> and through \<open>option_price\<close>; the rate, the volatility,
  the time itself and the distribution function do not influence the result.
\<close>

theorem price_at_expiry_is_intrinsic:
  "T \<le> 0 \<Longrightarrow> T' \<le> 0 \<Longrightarrow>
     call_price cdf S K T r sigma = Inr (max (S - K) 0)
   \<and> put_price cdf S K T r sigma = Inr (max (K - S) 0)
   \<and> option_price cdf S K T r sigma ''call'' = Inr (max (S - K) 0)
   \<and> option_price cdf S K T r sigma ''put'' = Inr (max (K - S) 0)
   \<and> option_price cdf S K T r sigma ty = option_price cdf' S K T' r' sigma' ty"
  by (simp add: call_price_def put_price_def option_price_def)

theorem price_at_expiry_is_intrinsic_witness:
  "call_price (\<lambda>x. 0) 55 50 0 (45 / 1000) (3 / 10) = Inr 5
   \<and> put_price (\<lambda>x. 0) 55 50 0 (45 / 1000) (3 / 10) = Inr 0
   \<and> option_price (\<lambda>x. 0) 55 50 0 (45 / 1000) (3 / 10) ''call'' = Inr 5
   \<and> option_price (\<lambda>x. 0) 55 50 0 (45 / 1000) (3 / 10) ''put'' = Inr 0
   \<and> option_price (\<lambda>x. 0) 55 50 0 (45 / 1000) (3 / 10) ''put''
       = option_price (\<lambda>x. 1) 55 50 (- 2) 7 9 ''put''"
  using price_at_expiry_is_intrinsic
    [where T = 0 and T' = "- 2" and cdf = "\<lambda>x. 0" and S = 55 and K = 50
       and r = "45 / 1000" and sigma = "3 / 10" and ty = "''put''"
       and cdf' = "\<lambda>x. 1" and r' = 7 and sigma' = 9]
  by (simp add: option_price_def put_price_def)

subsection \<open>Strike generator\<close>














subsection \<open>Portfolio operations\<close>

lemma list_remove_remove1:
  "r \<in> set xs \<Longrightarrow> (\<forall>e\<in>set xs. e \<noteq> r \<longrightarrow> h e \<noteq> h r) \<Longrightarrow> list_remove h xs r = Some (remove1 r xs)"
  by (induction xs) auto

lemma list_remove_values:
  "list_remove h xs r = Some ys \<Longrightarrow> map h ys = remove1 (h r) (map h xs) \<and> Suc (length ys) = length xs"
  by (induction xs arbitrary: ys) (auto split: if_splits)

lemma list_remove_member: "r \<in> set xs \<Longrightarrow> list_remove h xs r \<noteq> None"
  by (induction xs) auto

lemma sell_put_fails:
  "cash pf < strike (h r) * of_int (contracts (h r)) * 100 \<Longrightarrow>
   sell_put now (h, pf) r = Raises InsufficientCollateral (h, pf)"
  by (simp add: sell_put_def Let_def)

lemma assign_put_insufficient:
  "cash pf < strike (h r) * of_int (contracts (h r)) * 100 \<Longrightarrow>
   assign_put now (h, pf) r px d = Raises InsufficientCash (h, pf)"
  by (simp add: assign_put_def remove_cash_def Let_def)

lemma closing_positions_differ:
  assumes "\<forall>e\<in>set xs. status (h e) = OPEN" and "status q \<noteq> OPEN"
  shows "\<forall>e\<in>set xs. e \<noteq> r \<longrightarrow> (h(r := q)) e \<noteq> (h(r := q)) r"
proof (intro ballI impI)
  fix e assume e: "e \<in> set xs" "e \<noteq> r"
  then have "status ((h(r := q)) e) = OPEN" using assms(1) by simp
  moreover have "status ((h(r := q)) r) \<noteq> OPEN" using assms(2) by simp
  ultimately show "(h(r := q)) e \<noteq> (h(r := q)) r" by metis
qed

lemma perform_keyed:
  "keyed_by_symbol (snd s) \<Longrightarrow> keyed_by_symbol (snd (state_of (perform now s c)))"
  by (cases c)
     (auto simp: keyed_by_symbol_def sell_put_def sell_call_def assign_put_def assign_call_def
        expire_worthless_def add_cash_def remove_cash_def Let_def
        split: option.splits if_splits)



lemma assign_put_general:
  assumes "r \<in> set (options_positions pf)"
    and "strike (h r) * of_int (contracts (h r)) * 100 \<le> cash pf"
  shows "\<exists>rest.
     list_remove (h(r := (h r)\<lparr>status := ASSIGNED, exit_date := Some d, stock_price_at_exit := px\<rparr>))
        (options_positions pf) r = Some rest
   \<and> assign_put now (h, pf) r px d =
     Returns ()
       (h(r := (h r)\<lparr>status := ASSIGNED, exit_date := Some d, stock_price_at_exit := px\<rparr>),
        pf\<lparr>cash := cash pf - strike (h r) * of_int (contracts (h r)) * 100,
           transaction_history := transaction_history pf @
             [\<lparr>txn_type = ''cash_out'',
               amount = strike (h r) * of_int (contracts (h r)) * 100,
               description = ''Put assigned: bought '' @ show_int (contracts (h r) * 100)
                               @ '' shares of '' @ symbol (h r),
               timestamp = now\<rparr>],
           stock_positions := (stock_positions pf)(symbol (h r) \<mapsto>
             \<lparr>stk_symbol = symbol (h r), shares = contracts (h r) * 100,
              cost_basis = strike (h r), acquisition_date = d, assigned_from_put = True\<rparr>),
           closed_positions := closed_positions pf @ [r],
           options_positions := rest\<rparr>)"
proof -
  let ?h1 = "h(r := (h r)\<lparr>status := ASSIGNED, exit_date := Some d, stock_price_at_exit := px\<rparr>)"
  obtain rest where rest: "list_remove ?h1 (options_positions pf) r = Some rest"
    using list_remove_member [OF assms(1), of ?h1] by blast
  then show ?thesis using assms(2)
    by (simp add: assign_put_def remove_cash_def Let_def)
qed

text \<open>
  C3. For a contract \<open>r\<close> among the open positions: when the cash covers
  \<open>strike * contracts * 100\<close>, \<open>assign_put\<close> returns, debits the cash by exactly that
  amount, stores under the contract's symbol (creating or replacing the entry) a holding
  with \<open>shares = contracts * 100\<close>, \<open>cost_basis = strike\<close> and \<open>assigned_from_put\<close>
  set, sets the contract's status to \<open>ASSIGNED\<close> with the exit date and exit price,
  appends the contract to the closed positions and removes from the open positions the
  first entry that equals it, which is the contract itself when the entries of the open
  list have status \<open>OPEN\<close>; when the cash does not cover the amount it raises the
  insufficient-cash \<open>ValueError\<close> and changes nothing.
\<close>

theorem assign_put_effect:
  "r \<in> set (options_positions pf) \<Longrightarrow>
   h' = h(r := (h r)\<lparr>status := ASSIGNED, exit_date := Some d, stock_price_at_exit := px\<rparr>) \<Longrightarrow>
   (strike (h r) * of_int (contracts (h r)) * 100 \<le> cash pf \<longrightarrow>
      (\<exists>pf'. assign_put now (h, pf) r px d = Returns () (h', pf')
         \<and> cash pf' = cash pf - strike (h r) * of_int (contracts (h r)) * 100
         \<and> stock_positions pf' = (stock_positions pf)(symbol (h r) \<mapsto>
              \<lparr>stk_symbol = symbol (h r), shares = contracts (h r) * 100,
               cost_basis = strike (h r), acquisition_date = d, assigned_from_put = True\<rparr>)
         \<and> closed_positions pf' = closed_positions pf @ [r]
         \<and> list_remove h' (options_positions pf) r = Some (options_positions pf')
         \<and> map h' (options_positions pf') = remove1 (h' r) (map h' (options_positions pf))
         \<and> ((\<forall>e\<in>set (options_positions pf). status (h e) = OPEN) \<longrightarrow>
              options_positions pf' = remove1 r (options_positions pf))))
   \<and> (cash pf < strike (h r) * of_int (contracts (h r)) * 100 \<longrightarrow>
        assign_put now (h, pf) r px d = Raises InsufficientCash (h, pf))"
proof (intro conjI impI)
  assume r: "r \<in> set (options_positions pf)"
    and h': "h' = h(r := (h r)\<lparr>status := ASSIGNED, exit_date := Some d, stock_price_at_exit := px\<rparr>)"
    and enough: "strike (h r) * of_int (contracts (h r)) * 100 \<le> cash pf"
  from assign_put_general [where h = h and r = r and pf = pf and d = d and px = px and now = now, OF r enough]
  obtain rest where rest: "list_remove h' (options_positions pf) r = Some rest"
    and ret: "assign_put now (h, pf) r px d =
     Returns () (h',
        pf\<lparr>cash := cash pf - strike (h r) * of_int (contracts (h r)) * 100,
           transaction_history := transaction_history pf @
             [\<lparr>txn_type = ''cash_out'',
               amount = strike (h r) * of_int (contracts (h r)) * 100,
               description = ''Put assigned: bought '' @ show_int (contracts (h r) * 100)
                               @ '' shares of '' @ symbol (h r),
               timestamp = now\<rparr>],
           stock_positions := (stock_positions pf)(symbol (h r) \<mapsto>
             \<lparr>stk_symbol = symbol (h r), shares = contracts (h r) * 100,
              cost_basis = strike (h r), acquisition_date = d, assigned_from_put = True\<rparr>),
           closed_positions := closed_positions pf @ [r],
           options_positions := rest\<rparr>)"
    unfolding h' by blast
  have vals: "map h' rest = remove1 (h' r) (map h' (options_positions pf))"
    using list_remove_values [OF rest] by simp
  have exact: "rest = remove1 r (options_positions pf)"
    if "\<forall>e\<in>set (options_positions pf). status (h e) = OPEN"
  proof -
    have "\<forall>e\<in>set (options_positions pf). e \<noteq> r \<longrightarrow> h' e \<noteq> h' r"
      unfolding h' using that by (rule closing_positions_differ) simp
    from list_remove_remove1 [OF r this] rest show ?thesis by simp
  qed
  show "\<exists>pf'. assign_put now (h, pf) r px d = Returns () (h', pf')
         \<and> cash pf' = cash pf - strike (h r) * of_int (contracts (h r)) * 100
         \<and> stock_positions pf' = (stock_positions pf)(symbol (h r) \<mapsto>
              \<lparr>stk_symbol = symbol (h r), shares = contracts (h r) * 100,
               cost_basis = strike (h r), acquisition_date = d, assigned_from_put = True\<rparr>)
         \<and> closed_positions pf' = closed_positions pf @ [r]
         \<and> list_remove h' (options_positions pf) r = Some (options_positions pf')
         \<and> map h' (options_positions pf') = remove1 (h' r) (map h' (options_positions pf))
         \<and> ((\<forall>e\<in>set (options_positions pf). status (h e) = OPEN) \<longrightarrow>
              options_positions pf' = remove1 r (options_positions pf))"
    unfolding ret using rest vals exact by simp
next
  assume "cash pf < strike (h r) * of_int (contracts (h r)) * 100"
  then show "assign_put now (h, pf) r px d = Raises InsufficientCash (h, pf)"
    by (rule assign_put_insufficient)
qed

theorem assign_put_effect_witness:
  "assign_put 7 (\<lambda>_. aapl_put, (Portfolio_init 10000)\<lparr>options_positions := [0]\<rparr>) 0 45 30
     = Returns ()
         ((\<lambda>_. aapl_put)(0 := aapl_put\<lparr>status := ASSIGNED, exit_date := Some 30,
                                          stock_price_at_exit := 45\<rparr>),
          snd (state_of (assign_put 7
             (\<lambda>_. aapl_put, (Portfolio_init 10000)\<lparr>options_positions := [0]\<rparr>) 0 45 30)))
   \<and> cash (snd (state_of (assign_put 7
             (\<lambda>_. aapl_put, (Portfolio_init 10000)\<lparr>options_positions := [0]\<rparr>) 0 45 30))) = 5000
   \<and> map_option shares (stock_positions (snd (state_of (assign_put 7
             (\<lambda>_. aapl_put, (Portfolio_init 10000)\<lparr>options_positions := [0]\<rparr>) 0 45 30))) ''AAPL'')
       = Some 100
   \<and> options_positions (snd (state_of (assign_put 7
             (\<lambda>_. aapl_put, (Portfolio_init 10000)\<lparr>options_positions := [0]\<rparr>) 0 45 30))) = []
   \<and> closed_positions (snd (state_of (assign_put 7
             (\<lambda>_. aapl_put, (Portfolio_init 10000)\<lparr>options_positions := [0]\<rparr>) 0 45 30))) = [0]
   \<and> assign_put 7 (\<lambda>_. aapl_put, (Portfolio_init 1000)\<lparr>options_positions := [0]\<rparr>) 0 45 30
     = Raises InsufficientCash
         (\<lambda>_. aapl_put, (Portfolio_init 1000)\<lparr>options_positions := [0]\<rparr>)"
  using assign_put_effect
          [where r = 0 and pf = "(Portfolio_init 10000)\<lparr>options_positions := [0]\<rparr>"
             and h = "\<lambda>_. aapl_put" and d = 30 and px = 45 and now = 7, OF _ refl]
        assign_put_effect
          [where r = 0 and pf = "(Portfolio_init 1000)\<lparr>options_positions := [0]\<rparr>"
             and h = "\<lambda>_. aapl_put" and d = 30 and px = 45 and now = 7, OF _ refl]
  by (auto simp: aapl_put_def Portfolio_init_def)

lemma with_pstate_same: "with_pstate m (heap m, portfolio (sim m)) = m"
  by (simp add: with_pstate_def)

lemma sell_put_option_rejected:
  assumes "cash (portfolio (sim m)) < strk * of_int cnt * 100"
  shows "(\<exists>e. sell_put_option env m smb strk dte cnt = Raises e m)
       \<or> (\<exists>p. sell_put_option env m smb strk dte cnt
               = Returns False (m\<lparr>heap := (heap m)(next_ref m := p), next_ref := Suc (next_ref m)\<rparr>))"
proof (cases "put_price (norm_cdf env) (get_price_at_date env smb (current_date (sim m))) strk
                (of_int dte / 365) RISK_FREE_RATE
                (calculate_historical_volatility env smb (current_date (sim m)))")
  case (Inl e)
  then have "sell_put_option env m smb strk dte cnt = Raises e m"
    by (simp add: sell_put_option_def Let_def)
  then show ?thesis by blast
next
  case (Inr premium)
  show ?thesis
  proof (cases "list_index (trading_dates (sim m))
                  (min (current_date_index (sim m) + dte) (int (length (trading_dates (sim m))) - 1))")
    case None
    with Inr have "sell_put_option env m smb strk dte cnt = Raises IndexError m"
      by (simp add: sell_put_option_def Let_def)
    then show ?thesis by blast
  next
    case (Some expiry)
    let ?p = "\<lparr>symbol = smb, option_type = ''put'', strike = strk, expiration = expiry,
               premium_received = premium, contracts = cnt, entry_date = current_date (sim m),
               status = OPEN, exit_date = None,
               stock_price_at_entry = get_price_at_date env smb (current_date (sim m)),
               stock_price_at_exit = 0\<rparr>"
    from Inr Some assms
    have "sell_put_option env m smb strk dte cnt
          = Returns False (m\<lparr>heap := (heap m)(next_ref m := ?p), next_ref := Suc (next_ref m)\<rparr>)"
      by (simp add: sell_put_option_def Let_def sell_put_def InsufficientCollateral_def
            with_pstate_def)
    then show ?thesis by blast
  qed
qed

text \<open>
  C2. When the cash is below \<open>strike * contracts * 100\<close>, \<open>sell_put\<close> raises the
  insufficient-collateral \<open>ValueError\<close> and leaves the store and the whole portfolio
  (cash, open and closed positions, stock holdings, transaction log) as they were; and
  \<open>sell_put_option\<close> of the engine then either raises before the sale is attempted,
  with nothing changed, or returns \<open>False\<close>, having changed nothing but the store
  cell of the new, unreferenced contract object. The example is cash 1000, strike 50,
  one contract.
\<close>

theorem sell_put_insufficient_collateral:
  "(cash pf < strike (h r) * of_int (contracts (h r)) * 100 \<longrightarrow>
      sell_put now (h, pf) r = Raises InsufficientCollateral (h, pf))
   \<and> (cash (portfolio (sim m)) < strk * of_int cnt * 100 \<longrightarrow>
        (\<exists>e. sell_put_option env m smb strk dte cnt = Raises e m)
      \<or> (\<exists>p. sell_put_option env m smb strk dte cnt
              = Returns False
                  (m\<lparr>heap := (heap m)(next_ref m := p), next_ref := Suc (next_ref m)\<rparr>)))"
  using sell_put_fails [of pf h r now] sell_put_option_rejected [of m strk cnt env smb dte]
  by blast

theorem sell_put_insufficient_collateral_witness:
  "sell_put 7 (\<lambda>_. aapl_put, Portfolio_init 1000) 0
     = Raises InsufficientCollateral (\<lambda>_. aapl_put, Portfolio_init 1000)
   \<and> cash (snd (state_of (sell_put 7 (\<lambda>_. aapl_put, Portfolio_init 1000) 0))) = 1000
   \<and> options_positions (snd (state_of (sell_put 7 (\<lambda>_. aapl_put, Portfolio_init 1000) 0))) = []
   \<and> transaction_history (snd (state_of (sell_put 7 (\<lambda>_. aapl_put, Portfolio_init 1000) 0))) = []
   \<and> (\<exists>m'. sell_put_option (example_environment 52)
              (example_machine (\<lambda>_. aapl_put) (Portfolio_init 1000) 0) ''AAPL'' 50 0 1
            = Returns False m')
   \<and> sim (state_of (sell_put_option (example_environment 52)
              (example_machine (\<lambda>_. aapl_put) (Portfolio_init 1000) 0) ''AAPL'' 50 0 1))
       = sim (example_machine (\<lambda>_. aapl_put) (Portfolio_init 1000) 0)"
proof -
  let ?m = "example_machine (\<lambda>_. aapl_put) (Portfolio_init 1000) 0"
  let ?call = "sell_put_option (example_environment 52) ?m ''AAPL'' 50 0 1"
  have a: "cash (Portfolio_init 1000) < strike aapl_put * of_int (contracts aapl_put) * 100"
    by (simp add: Portfolio_init_def aapl_put_def)
  have b: "cash (portfolio (sim ?m)) < 50 * of_int 1 * 100"
    by (simp add: example_machine_def Portfolio_init_def)
  have c: "\<forall>e. ?call \<noteq> Raises e ?m"
    by (simp add: sell_put_option_def example_machine_def example_environment_def put_price_def
          list_index_def Let_def sell_put_def Portfolio_init_def InsufficientCollateral_def
          with_pstate_def)
  note inst = sell_put_insufficient_collateral
         [where pf = "Portfolio_init 1000" and h = "\<lambda>_. aapl_put" and r = 0 and now = 7
            and m = ?m and strk = 50 and cnt = 1
            and env = "example_environment 52" and smb = "''AAPL''" and dte = 0]
  from inst a have put: "sell_put 7 (\<lambda>_. aapl_put, Portfolio_init 1000) 0
     = Raises InsufficientCollateral (\<lambda>_. aapl_put, Portfolio_init 1000)"
    by blast
  from inst b c obtain p where
    opt: "?call = Returns False (?m\<lparr>heap := (heap ?m)(next_ref ?m := p), next_ref := Suc (next_ref ?m)\<rparr>)"
    by blast
  have "\<exists>m'. ?call = Returns False m'" using opt by blast
  moreover have "sim (state_of ?call) = sim ?m" unfolding opt by simp
  ultimately show ?thesis unfolding put by (simp add: Portfolio_init_def)
qed

lemma assign_call_general:
  assumes "r \<in> set (options_positions pf)"
  shows "\<exists>rest.
     list_remove (h(r := (h r)\<lparr>status := CALLED_AWAY, exit_date := Some d, stock_price_at_exit := px\<rparr>))
        (options_positions pf) r = Some rest
   \<and> assign_call now (h, pf) r px d =
     Returns ()
       (h(r := (h r)\<lparr>status := CALLED_AWAY, exit_date := Some d, stock_price_at_exit := px\<rparr>),
        pf\<lparr>stock_positions :=
             (case stock_positions pf (symbol (h r)) of
                None \<Rightarrow> stock_positions pf
              | Some sp \<Rightarrow>
                  if shares sp = contracts (h r) * 100
                  then (stock_positions pf)(symbol (h r) := None)
                  else (stock_positions pf)(symbol (h r) \<mapsto>
                         sp\<lparr>shares := shares sp - contracts (h r) * 100\<rparr>)),
           cash := cash pf + strike (h r) * of_int (contracts (h r)) * 100,
           transaction_history := transaction_history pf @
             [\<lparr>txn_type = ''cash_in'',
               amount = strike (h r) * of_int (contracts (h r)) * 100,
               description = ''Call assigned: sold '' @ show_int (contracts (h r) * 100)
                               @ '' shares of '' @ symbol (h r),
               timestamp = now\<rparr>],
           closed_positions := closed_positions pf @ [r],
           options_positions := rest\<rparr>)"
proof -
  let ?h1 = "h(r := (h r)\<lparr>status := CALLED_AWAY, exit_date := Some d, stock_price_at_exit := px\<rparr>)"
  obtain rest where rest: "list_remove ?h1 (options_positions pf) r = Some rest"
    using list_remove_member [OF assms(1), of ?h1] by blast
  then show ?thesis
    by (simp add: assign_call_def add_cash_def Let_def split: option.split)
qed

lemma process_expirations_single_call:
  assumes "options_positions (portfolio (sim m)) = [r]"
    and "current_date (sim m) = Some cd"
    and "option_type (heap m r) = ''call''"
    and "expiration (heap m r) \<le> cd"
    and "strike (heap m r) < get_price_at_date env (symbol (heap m r)) (Some cd)"
    and "assign_call (clock_now env) (heap m, portfolio (sim m)) r
           (get_price_at_date env (symbol (heap m r)) (Some cd)) cd = Returns () s"
    and "symbol (fst s r) = symbol (heap m r)" "strike (fst s r) = strike (heap m r)"
        "contracts (fst s r) = contracts (heap m r)"
  shows "process_expirations env m =
     Returns [call_assigned (symbol (heap m r)) (strike (heap m r)) (contracts (heap m r) * 100)
                (strike (heap m r) * of_int (contracts (heap m r)) * 100)
                (get_price_at_date env (symbol (heap m r)) (Some cd))]
       (with_pstate m s)"
  using assms by (simp add: process_expirations_def is_expired_def Let_def)


text \<open>
  C10. For a contract \<open>r\<close> among the open positions whose symbol has no holding, or a
  holding with a share count other than \<open>contracts * 100\<close>, \<open>assign_call\<close> checks no
  coverage and returns: it credits the cash by \<open>strike * contracts * 100\<close>, marks the
  contract \<open>CALLED_AWAY\<close>, appends it to the closed positions and removes it from the
  open ones (the first entry equal to it; the contract itself when the open entries have
  status \<open>OPEN\<close>); an absent holding stays absent, an existing one is decremented by
  \<open>contracts * 100\<close>, below zero when it held fewer shares. The engine's
  \<open>process_expirations\<close> reaches this call for an expired call whose strike is below
  the spot price, again without looking at the holdings.
\<close>

theorem assign_call_no_coverage_check:
  "r \<in> set (options_positions pf) \<Longrightarrow>
   (\<forall>sp. stock_positions pf (symbol (h r)) = Some sp \<longrightarrow> shares sp \<noteq> contracts (h r) * 100) \<Longrightarrow>
   h' = h(r := (h r)\<lparr>status := CALLED_AWAY, exit_date := Some d, stock_price_at_exit := px\<rparr>) \<Longrightarrow>
   \<exists>pf'. assign_call now (h, pf) r px d = Returns () (h', pf')
     \<and> cash pf' = cash pf + strike (h r) * of_int (contracts (h r)) * 100
     \<and> closed_positions pf' = closed_positions pf @ [r]
     \<and> list_remove h' (options_positions pf) r = Some (options_positions pf')
     \<and> ((\<forall>e\<in>set (options_positions pf). status (h e) = OPEN) \<longrightarrow>
          options_positions pf' = remove1 r (options_positions pf))
     \<and> (stock_positions pf (symbol (h r)) = None \<longrightarrow> stock_positions pf' = stock_positions pf)
     \<and> (\<forall>sp. stock_positions pf (symbol (h r)) = Some sp \<longrightarrow>
          stock_positions pf' = (stock_positions pf)(symbol (h r) \<mapsto>
             sp\<lparr>shares := shares sp - contracts (h r) * 100\<rparr>))
     \<and> (\<forall>sp. stock_positions pf (symbol (h r)) = Some sp \<and> shares sp < contracts (h r) * 100 \<longrightarrow>
          (\<exists>sp'. stock_positions pf' (symbol (h r)) = Some sp' \<and> shares sp' < 0))
     \<and> (heap m = h \<and> portfolio (sim m) = pf \<and> options_positions pf = [r]
          \<and> current_date (sim m) = Some d \<and> clock_now env = now
          \<and> option_type (h r) = ''call'' \<and> expiration (h r) \<le> d
          \<and> get_price_at_date env (symbol (h r)) (Some d) = px \<and> strike (h r) < px \<longrightarrow>
          process_expirations env m =
            Returns [call_assigned (symbol (h r)) (strike (h r)) (contracts (h r) * 100)
                       (strike (h r) * of_int (contracts (h r)) * 100) px]
              (with_pstate m (h', pf')))"
proof -
  assume r: "r \<in> set (options_positions pf)"
    and uncovered: "\<forall>sp. stock_positions pf (symbol (h r)) = Some sp \<longrightarrow>
                      shares sp \<noteq> contracts (h r) * 100"
    and h': "h' = h(r := (h r)\<lparr>status := CALLED_AWAY, exit_date := Some d,
                              stock_price_at_exit := px\<rparr>)"
  define sp_after where "sp_after =
    (case stock_positions pf (symbol (h r)) of
       None \<Rightarrow> stock_positions pf
     | Some sp \<Rightarrow> (stock_positions pf)(symbol (h r) \<mapsto>
                    sp\<lparr>shares := shares sp - contracts (h r) * 100\<rparr>))"
  from assign_call_general [where h = h and r = r and pf = pf and d = d and px = px and now = now, OF r]
  obtain rest where rest: "list_remove h' (options_positions pf) r = Some rest"
    and ret: "assign_call now (h, pf) r px d =
     Returns () (h',
        pf\<lparr>stock_positions := sp_after,
           cash := cash pf + strike (h r) * of_int (contracts (h r)) * 100,
           transaction_history := transaction_history pf @
             [\<lparr>txn_type = ''cash_in'',
               amount = strike (h r) * of_int (contracts (h r)) * 100,
               description = ''Call assigned: sold '' @ show_int (contracts (h r) * 100)
                               @ '' shares of '' @ symbol (h r),
               timestamp = now\<rparr>],
           closed_positions := closed_positions pf @ [r],
           options_positions := rest\<rparr>)" (is "_ = Returns () (h', ?pf')")
    unfolding h' sp_after_def using uncovered by (auto split: option.splits)
  have exact: "rest = remove1 r (options_positions pf)"
    if "\<forall>e\<in>set (options_positions pf). status (h e) = OPEN"
  proof -
    have "\<forall>e\<in>set (options_positions pf). e \<noteq> r \<longrightarrow> h' e \<noteq> h' r"
      unfolding h' using that by (rule closing_positions_differ) simp
    from list_remove_remove1 [OF r this] rest show ?thesis by simp
  qed
  have engine: "process_expirations env m =
            Returns [call_assigned (symbol (h r)) (strike (h r)) (contracts (h r) * 100)
                       (strike (h r) * of_int (contracts (h r)) * 100) px]
              (with_pstate m (h', ?pf'))"
    if "heap m = h \<and> portfolio (sim m) = pf \<and> options_positions pf = [r]
          \<and> current_date (sim m) = Some d \<and> clock_now env = now
          \<and> option_type (h r) = ''call'' \<and> expiration (h r) \<le> d
          \<and> get_price_at_date env (symbol (h r)) (Some d) = px \<and> strike (h r) < px"
    using process_expirations_single_call [where m = m and r = r and cd = d and env = env
              and s = "(h', ?pf')"] that ret
    by (simp add: h')
  show ?thesis
    apply (rule exI [where x = ?pf'])
    using ret rest exact engine by (auto simp: sp_after_def)
qed

theorem assign_call_no_coverage_check_witness:
  "cash (snd (state_of (assign_call 7
      (\<lambda>_. aapl_call, (Portfolio_init 0)\<lparr>options_positions := [0]\<rparr>) 0 60 30))) = 5500
   \<and> status (fst (state_of (assign_call 7
      (\<lambda>_. aapl_call, (Portfolio_init 0)\<lparr>options_positions := [0]\<rparr>) 0 60 30)) 0) = CALLED_AWAY
   \<and> closed_positions (snd (state_of (assign_call 7
      (\<lambda>_. aapl_call, (Portfolio_init 0)\<lparr>options_positions := [0]\<rparr>) 0 60 30))) = [0]
   \<and> options_positions (snd (state_of (assign_call 7
      (\<lambda>_. aapl_call, (Portfolio_init 0)\<lparr>options_positions := [0]\<rparr>) 0 60 30))) = []
   \<and> stock_positions (snd (state_of (assign_call 7
      (\<lambda>_. aapl_call, (Portfolio_init 0)\<lparr>options_positions := [0]\<rparr>) 0 60 30))) ''AAPL'' = None
   \<and> process_expirations (example_environment 60)
        (example_machine (\<lambda>_. aapl_call) ((Portfolio_init 0)\<lparr>options_positions := [0]\<rparr>) 3)
       = Returns [call_assigned ''AAPL'' 55 100 5500 60]
           (with_pstate
              (example_machine (\<lambda>_. aapl_call) ((Portfolio_init 0)\<lparr>options_positions := [0]\<rparr>) 3)
              (state_of (assign_call 7
                 (\<lambda>_. aapl_call, (Portfolio_init 0)\<lparr>options_positions := [0]\<rparr>) 0 60 30)))
   \<and> map_option shares (stock_positions (snd (state_of (assign_call 7
      (\<lambda>_. aapl_call,
       (Portfolio_init 0)\<lparr>options_positions := [0],
                            stock_positions := [''AAPL'' \<mapsto> fifty_shares]\<rparr>) 0 60 30))) ''AAPL'')
       = Some (- 50)"
proof -
  let ?h = "\<lambda>_::ref. aapl_call"
  let ?p0 = "(Portfolio_init 0)\<lparr>options_positions := [0]\<rparr>"
  let ?p1 = "(Portfolio_init 0)\<lparr>options_positions := [0],
                                  stock_positions := [''AAPL'' \<mapsto> fifty_shares]\<rparr>"
  let ?h' = "?h(0 := (?h 0)\<lparr>status := CALLED_AWAY, exit_date := Some 30, stock_price_at_exit := 60\<rparr>)"
  let ?m = "example_machine ?h ?p0 3"
  have r0: "0 \<in> set (options_positions ?p0)" and r1: "0 \<in> set (options_positions ?p1)"
    by simp_all
  have u0: "\<forall>sp. stock_positions ?p0 (symbol (?h 0)) = Some sp \<longrightarrow>
              shares sp \<noteq> contracts (?h 0) * 100"
    by (simp add: Portfolio_init_def)
  have u1: "\<forall>sp. stock_positions ?p1 (symbol (?h 0)) = Some sp \<longrightarrow>
              shares sp \<noteq> contracts (?h 0) * 100"
    by (simp add: aapl_call_def fifty_shares_def)
  have none0: "stock_positions ?p0 (symbol (?h 0)) = None"
    by (simp add: Portfolio_init_def)
  have some1: "stock_positions ?p1 (symbol (?h 0)) = Some fifty_shares"
    by (simp add: aapl_call_def)
  have open0: "\<forall>e\<in>set (options_positions ?p0). status (?h e) = OPEN"
    by (simp add: aapl_call_def)
  have eng: "heap ?m = ?h \<and> portfolio (sim ?m) = ?p0 \<and> options_positions ?p0 = [0]
        \<and> current_date (sim ?m) = Some 30 \<and> clock_now (example_environment 60) = 7
        \<and> option_type (?h 0) = ''call'' \<and> expiration (?h 0) \<le> 30
        \<and> get_price_at_date (example_environment 60) (symbol (?h 0)) (Some 30) = 60
        \<and> strike (?h 0) < 60"
    by (simp add: example_machine_def example_environment_def aapl_call_def)
  from assign_call_no_coverage_check
         [where h = ?h and h' = ?h' and d = 30 and px = 60 and now = 7 and pf = ?p0 and r = 0
            and env = "example_environment 60" and m = ?m,
          OF r0 u0 refl]
  obtain pf0 where ret0: "assign_call 7 (?h, ?p0) 0 60 30 = Returns () (?h', pf0)"
    and cash0: "cash pf0 = cash ?p0 + strike (?h 0) * of_int (contracts (?h 0)) * 100"
    and closed0: "closed_positions pf0 = closed_positions ?p0 @ [0]"
    and open0': "options_positions pf0 = remove1 0 (options_positions ?p0)"
    and stock0: "stock_positions pf0 = stock_positions ?p0"
    and eng0: "process_expirations (example_environment 60) ?m =
          Returns [call_assigned (symbol (?h 0)) (strike (?h 0)) (contracts (?h 0) * 100)
                     (strike (?h 0) * of_int (contracts (?h 0)) * 100) 60]
            (with_pstate ?m (?h', pf0))"
    using none0 open0 eng by (elim exE conjE) (rule that; blast)
  from assign_call_no_coverage_check
         [where h = ?h and h' = ?h' and d = 30 and px = 60 and now = 7 and pf = ?p1 and r = 0
            and env = "example_environment 60" and m = ?m,
          OF r1 u1 refl]
  obtain pf1 where ret1: "assign_call 7 (?h, ?p1) 0 60 30 = Returns () (?h', pf1)"
    and stock1: "stock_positions pf1 = (stock_positions ?p1)(symbol (?h 0) \<mapsto>
             fifty_shares\<lparr>shares := shares fifty_shares - contracts (?h 0) * 100\<rparr>)"
    using some1 by (elim exE conjE) (rule that; blast)
  have e0: "state_of (assign_call 7 (?h, ?p0) 0 60 30) = (?h', pf0)" unfolding ret0 by simp
  have e1: "state_of (assign_call 7 (?h, ?p1) 0 60 30) = (?h', pf1)" unfolding ret1 by simp
  show ?thesis
    unfolding e0 e1 eng0 fst_conv snd_conv cash0 closed0 open0' stock0 stock1
    by (simp add: aapl_call_def fifty_shares_def Portfolio_init_def)
qed


lemma run_keyed:
  "keyed_by_symbol (snd s) \<Longrightarrow> s' \<in> set (run s cs) \<Longrightarrow> keyed_by_symbol (snd s')"
proof (induction cs arbitrary: s)
  case Nil
  then show ?case by simp
next
  case (Cons tc cs)
  from Cons.prems(2) consider "s' = s"
    | "s' \<in> set (run (state_of (perform (fst tc) s (snd tc))) cs)"
    by auto
  then show ?case
  proof cases
    case 1
    with Cons.prems(1) show ?thesis by simp
  next
    case 2
    have "keyed_by_symbol (snd (state_of (perform (fst tc) s (snd tc))))"
      using Cons.prems(1) by (rule perform_keyed)
    then show ?thesis using 2 by (rule Cons.IH)
  qed
qed

lemma Portfolio_init_keyed: "keyed_by_symbol (Portfolio_init capital)"
  by (simp add: keyed_by_symbol_def Portfolio_init_def)






lemma assign_put_replaces:
  "assign_put now (h, pf) r px d = Returns u (h', pf') \<Longrightarrow>
   stock_positions pf' = (stock_positions pf)(symbol (h r) \<mapsto>
     \<lparr>stk_symbol = symbol (h r), shares = contracts (h r) * 100, cost_basis = strike (h r),
      acquisition_date = d, assigned_from_put = True\<rparr>)"
  by (auto simp: assign_put_def remove_cash_def Let_def split: if_splits option.splits)

lemma two_assignments_holdings:
  "stock_positions (snd (run (two_puts, Portfolio_init 100000) two_assignments ! 2)) ''AAPL''
     = Some \<lparr>stk_symbol = ''AAPL'', shares = 100, cost_basis = 50, acquisition_date = 30,
             assigned_from_put = True\<rparr>"
  "stock_positions (snd (run (two_puts, Portfolio_init 100000) two_assignments ! 4)) ''AAPL''
     = Some \<lparr>stk_symbol = ''AAPL'', shares = 200, cost_basis = 50, acquisition_date = 30,
             assigned_from_put = True\<rparr>"
  by (simp_all add: two_puts_def two_assignments_def aapl_put_def Portfolio_init_def sell_put_def
        assign_put_def remove_cash_def add_cash_def total_premium_def Let_def)

text \<open>
  C7, as stated, fails in its second half: \<open>assign_put\<close> overwrites the holding of the
  symbol. From a capital of 100000, selling and assigning one AAPL put (100 shares) and
  then selling and assigning a two-contract AAPL put (200 shares) leaves a holding of
  200 shares, not the merged 300.
\<close>

theorem holdings_merged_counterexample:
  "map_option shares
     (stock_positions (snd (run (two_puts, Portfolio_init 100000) two_assignments ! 2)) ''AAPL'')
     = Some 100
   \<and> two_assignments ! 3 = (4, AssignPut 1 45 30)
   \<and> contracts (two_puts 1) * 100 = 200
   \<and> map_option shares
       (stock_positions (snd (run (two_puts, Portfolio_init 100000) two_assignments ! 4)) ''AAPL'')
       = Some 200
   \<and> (200 :: int) \<noteq> 100 + 200"
  by (simp add: two_assignments_holdings) (simp add: two_assignments_def two_puts_def aapl_put_def)

text \<open>
  C7, amended. In every state reachable from a new portfolio by the five operations the
  stock holdings map each symbol to at most one holding: every holding is stored under
  its own symbol, so two holdings of one symbol are the same entry. When \<open>assign_put\<close>
  returns, the holding of the contract's symbol is the new one (\<open>contracts * 100\<close>
  shares at the strike), whether or not a holding of that symbol existed before: an
  existing holding is replaced, never duplicated and not merged.
\<close>

theorem holdings_keyed_and_replaced:
  "(s \<in> set (run (h, Portfolio_init capital) cs) \<and> stock_positions (snd s) k = Some sp
      \<longrightarrow> stk_symbol sp = k)
   \<and> (s \<in> set (run (h, Portfolio_init capital) cs) \<and> stock_positions (snd s) k = Some sp
        \<and> stock_positions (snd s) k' = Some sp' \<and> stk_symbol sp = stk_symbol sp'
      \<longrightarrow> k = k' \<and> sp = sp')
   \<and> (assign_put now (h, pf) r px d = Returns u (h', pf') \<longrightarrow>
        stock_positions pf' = (stock_positions pf)(symbol (h r) \<mapsto>
          \<lparr>stk_symbol = symbol (h r), shares = contracts (h r) * 100, cost_basis = strike (h r),
           acquisition_date = d, assigned_from_put = True\<rparr>))"
proof (intro conjI impI)
  assume a: "s \<in> set (run (h, Portfolio_init capital) cs) \<and> stock_positions (snd s) k = Some sp"
  have "keyed_by_symbol (snd s)"
    using run_keyed [of "(h, Portfolio_init capital)" s cs] a Portfolio_init_keyed by simp
  with a show "stk_symbol sp = k" unfolding keyed_by_symbol_def by blast
next
  assume a: "s \<in> set (run (h, Portfolio_init capital) cs) \<and> stock_positions (snd s) k = Some sp
        \<and> stock_positions (snd s) k' = Some sp' \<and> stk_symbol sp = stk_symbol sp'"
  have "keyed_by_symbol (snd s)"
    using run_keyed [of "(h, Portfolio_init capital)" s cs] a Portfolio_init_keyed by simp
  with a have "stk_symbol sp = k" and "stk_symbol sp' = k'"
    unfolding keyed_by_symbol_def by blast+
  with a show "k = k'" by simp
  with a have "Some sp = Some sp'" by metis
  then show "sp = sp'" by simp
next
  assume "assign_put now (h, pf) r px d = Returns u (h', pf')"
  then show "stock_positions pf' = (stock_positions pf)(symbol (h r) \<mapsto>
          \<lparr>stk_symbol = symbol (h r), shares = contracts (h r) * 100, cost_basis = strike (h r),
           acquisition_date = d, assigned_from_put = True\<rparr>)"
    by (rule assign_put_replaces)
qed


theorem holdings_keyed_and_replaced_witness:
  "stock_positions (snd (run (two_puts, Portfolio_init 100000) two_assignments ! 4)) ''AAPL''
     = Some \<lparr>stk_symbol = ''AAPL'', shares = 200, cost_basis = 50, acquisition_date = 30,
             assigned_from_put = True\<rparr>
   \<and> stk_symbol \<lparr>stk_symbol = ''AAPL'', shares = 200, cost_basis = 50, acquisition_date = 30,
                  assigned_from_put = True\<rparr> = ''AAPL''
   \<and> stock_positions (snd (state_of (assign_put 7
        (\<lambda>_. aapl_put,
         (Portfolio_init 10000)\<lparr>options_positions := [0],
                                 stock_positions := [''AAPL'' \<mapsto> fifty_shares]\<rparr>) 0 45 30)))
       = [''AAPL'' \<mapsto> \<lparr>stk_symbol = ''AAPL'', shares = 100, cost_basis = 50,
                          acquisition_date = 30, assigned_from_put = True\<rparr>]"
proof -
  let ?s0 = "(two_puts, Portfolio_init 100000)"
  let ?sp = "\<lparr>stk_symbol = ''AAPL'', shares = 200, cost_basis = 50, acquisition_date = 30,
              assigned_from_put = True\<rparr>"
  let ?h = "\<lambda>_::ref. aapl_put"
  let ?pf = "(Portfolio_init 10000)\<lparr>options_positions := [0],
                                      stock_positions := [''AAPL'' \<mapsto> fifty_shares]\<rparr>"
  let ?res = "assign_put 7 (?h, ?pf) 0 45 30"
  have mem: "run ?s0 two_assignments ! 4 \<in> set (run ?s0 two_assignments)"
    by (rule nth_mem) (simp add: two_assignments_def)
  have hold: "stock_positions (snd (run ?s0 two_assignments ! 4)) ''AAPL'' = Some ?sp"
    by (rule two_assignments_holdings(2))
  have ret: "?res = Returns () (fst (state_of ?res), snd (state_of ?res))"
    by (simp add: assign_put_def remove_cash_def Let_def aapl_put_def Portfolio_init_def)
  have sym: "symbol (?h 0) = ''AAPL''" "contracts (?h 0) * 100 = 100" "strike (?h 0) = 50"
    by (simp_all add: aapl_put_def)
  from holdings_keyed_and_replaced
         [where s = "run ?s0 two_assignments ! 4" and h = two_puts and capital = 100000
            and cs = two_assignments and k = "''AAPL''" and sp = ?sp
            and k' = "''AAPL''" and sp' = ?sp]
       mem hold
  have 1: "stk_symbol ?sp = ''AAPL''" by blast
  from holdings_keyed_and_replaced
         [where h = ?h and pf = ?pf and r = 0 and now = 7 and px = 45 and d = 30 and u = "()"
            and h' = "fst (state_of ?res)" and pf' = "snd (state_of ?res)"]
       ret
  have 2: "stock_positions (snd (state_of ?res)) = (stock_positions ?pf)(symbol (?h 0) \<mapsto>
          \<lparr>stk_symbol = symbol (?h 0), shares = contracts (?h 0) * 100, cost_basis = strike (?h 0),
           acquisition_date = 30, assigned_from_put = True\<rparr>)"
    by blast
  show ?thesis unfolding 2 sym using hold 1 by simp
qed

subsection \<open>Simulation clock\<close>

lemma advance_day_overshoot:
  "int (length (trading_dates (sim m))) \<le> current_date_index (sim m) + n \<Longrightarrow>
   advance_day env m n = Returns (False, []) (clamped m)"
  by (simp add: advance_day_def clamped_def Let_def)

lemma clamped_fields:
  "heap (clamped m) = heap m" "next_ref (clamped m) = next_ref m"
  "portfolio (sim (clamped m)) = portfolio (sim m)"
  "current_date (sim (clamped m)) = current_date (sim m)"
  "trading_dates (sim (clamped m)) = trading_dates (sim m)"
  "current_date_index (sim (clamped m)) = int (length (trading_dates (sim m))) - 1"
  by (simp_all add: clamped_def)

lemma clamped_idem: "clamped (clamped m) = clamped m"
  by (simp add: clamped_def)

lemma advance_days_exhausted:
  "\<forall>k\<in>set ns. 1 \<le> k \<Longrightarrow> o' \<in> set (advance_days env (clamped m) ns) \<Longrightarrow>
   o' = Returns (False, []) (clamped m)"
proof (induction ns)
  case Nil
  then show ?case by simp
next
  case (Cons k ns)
  have "int (length (trading_dates (sim (clamped m)))) \<le> current_date_index (sim (clamped m)) + k"
    using Cons.prems(1) by (simp add: clamped_fields)
  then have step: "advance_day env (clamped m) k = Returns (False, []) (clamped m)"
    using advance_day_overshoot [of "clamped m" k env] by (simp add: clamped_idem)
  show ?case
  proof (cases "o' = advance_day env (clamped m) k")
    case True
    with step show ?thesis by simp
  next
    case False
    with Cons.prems(2) step have "o' \<in> set (advance_days env (clamped m) ns)" by simp
    moreover have "\<forall>k\<in>set ns. 1 \<le> k" using Cons.prems(1) by simp
    ultimately show ?thesis by (rule Cons.IH[rotated])
  qed
qed

lemma process_positions_clock:
  "current_date (sim (state_of (process_positions env rs m evs))) = current_date (sim m)
   \<and> trading_dates (sim (state_of (process_positions env rs m evs))) = trading_dates (sim m)
   \<and> current_date_index (sim (state_of (process_positions env rs m evs))) = current_date_index (sim m)"
proof (induction env rs m evs rule: process_positions.induct)
  case (1 env m expired_events)
  then show ?case by simp
next
  case (2 env r rs m expired_events)
  show ?case
  proof (cases "current_date (sim m)")
    case None
    then show ?thesis by simp
  next
    case (Some cd)
    show ?thesis
      using 2 Some
      by (simp add: Let_def with_pstate_def split: outcome.splits)
  qed
qed


lemma advance_day_in_range_date:
  assumes "advance_day env m k = Returns (True, evs) m'"
  shows "current_date (sim m') = list_index (trading_dates (sim m')) (current_date_index (sim m'))
         \<and> current_date (sim m') \<noteq> None"
proof -
  let ?s1 = "(sim m)\<lparr>current_date_index := current_date_index (sim m) + k\<rparr>"
  from assms have range: "\<not> int (length (trading_dates ?s1)) \<le> current_date_index ?s1"
    by (auto simp: advance_day_def Let_def split: if_splits)
  from assms range obtain d where d: "list_index (trading_dates ?s1) (current_date_index ?s1) = Some d"
    by (cases "list_index (trading_dates ?s1) (current_date_index ?s1)")
       (auto simp: advance_day_def Let_def)
  let ?m2 = "m\<lparr>sim := ?s1\<lparr>current_date := Some d\<rparr>\<rparr>"
  from assms range d have "process_expirations env ?m2 = Returns evs m'"
    by (auto simp: advance_day_def Let_def split: outcome.splits)
  then have "m' = state_of (process_positions env (options_positions (portfolio (sim ?m2))) ?m2 [])"
    by (simp add: process_expirations_def)
  with process_positions_clock [of env "options_positions (portfolio (sim ?m2))" ?m2 "[]"]
  have "current_date (sim m') = Some d" "trading_dates (sim m') = trading_dates ?s1"
       "current_date_index (sim m') = current_date_index ?s1"
    by simp_all
  with d show ?thesis by simp
qed

text \<open>
  C6. For a clock with at least one trading date and every \<open>n\<close> with
  \<open>current index + n \<ge> number of trading dates\<close>, \<open>advance_day n\<close> does not raise: it
  returns \<open>False\<close> with an empty event list, sets the index to \<open>len - 1\<close>, which lies
  in \<open>[0, len - 1]\<close>, and changes nothing else (store, portfolio, current date,
  trading dates); every further such call (any \<open>k \<ge> 1\<close>) returns the same and leaves
  the same state, so no expiration event is ever produced.
\<close>

theorem advance_day_past_end:
  "trading_dates (sim m) \<noteq> [] \<Longrightarrow>
   int (length (trading_dates (sim m))) \<le> current_date_index (sim m) + n \<Longrightarrow>
   \<forall>k\<in>set ns. 1 \<le> k \<Longrightarrow>
     advance_day env m n = Returns (False, []) (clamped m)
   \<and> heap (clamped m) = heap m \<and> next_ref (clamped m) = next_ref m
   \<and> portfolio (sim (clamped m)) = portfolio (sim m)
   \<and> current_date (sim (clamped m)) = current_date (sim m)
   \<and> trading_dates (sim (clamped m)) = trading_dates (sim m)
   \<and> current_date_index (sim (clamped m)) = int (length (trading_dates (sim m))) - 1
   \<and> 0 \<le> current_date_index (sim (clamped m))
   \<and> current_date_index (sim (clamped m)) \<le> int (length (trading_dates (sim (clamped m)))) - 1
   \<and> (\<forall>o' \<in> set (advance_days env m (n # ns)). o' = Returns (False, []) (clamped m))"
proof -
  assume ne: "trading_dates (sim m) \<noteq> []"
    and over: "int (length (trading_dates (sim m))) \<le> current_date_index (sim m) + n"
    and ns: "\<forall>k\<in>set ns. 1 \<le> k"
  have first: "advance_day env m n = Returns (False, []) (clamped m)"
    using over by (rule advance_day_overshoot)
  have rest: "o' = Returns (False, []) (clamped m)"
    if "o' \<in> set (advance_days env m (n # ns))" for o'
  proof (cases "o' = advance_day env m n")
    case True
    with first show ?thesis by simp
  next
    case False
    with that first have "o' \<in> set (advance_days env (clamped m) ns)" by simp
    with ns show ?thesis by (rule advance_days_exhausted)
  qed
  have "0 < length (trading_dates (sim m))" using ne by simp
  then have "0 \<le> current_date_index (sim (clamped m))" by (simp add: clamped_fields)
  with first rest show ?thesis by (simp add: clamped_fields)
qed

lemma singleton_setI: "x \<in> A \<Longrightarrow> \<forall>y\<in>A. y = r \<Longrightarrow> A = {r}"
  by fastforce

theorem advance_day_past_end_witness:
  "set (advance_days (example_environment 52)
          (example_machine (\<lambda>_. aapl_put) (Portfolio_init 1000) 1) [5, 1, 2])
     = {Returns (False, []) (clamped (example_machine (\<lambda>_. aapl_put) (Portfolio_init 1000) 1))}
   \<and> current_date_index (sim (clamped (example_machine (\<lambda>_. aapl_put) (Portfolio_init 1000) 1)))
       = 3
   \<and> current_date (sim (clamped (example_machine (\<lambda>_. aapl_put) (Portfolio_init 1000) 1)))
       = Some 10
   \<and> portfolio (sim (clamped (example_machine (\<lambda>_. aapl_put) (Portfolio_init 1000) 1)))
       = Portfolio_init 1000"
proof -
  let ?m = "example_machine (\<lambda>_. aapl_put) (Portfolio_init 1000) 1"
  let ?env = "example_environment 52"
  have ne: "trading_dates (sim ?m) \<noteq> []" by (simp add: example_machine_def)
  have over: "int (length (trading_dates (sim ?m))) \<le> current_date_index (sim ?m) + 5"
    by (simp add: example_machine_def)
  have ns: "\<forall>k\<in>set [1, 2::int]. 1 \<le> k" by simp
  have nonempty: "advance_day ?env ?m 5 \<in> set (advance_days ?env ?m [5, 1, 2])"
    by (simp only: advance_days.simps list.set_intros(1))
  note inst = advance_day_past_end [OF ne over ns, of ?env]
  from inst have all: "\<forall>o' \<in> set (advance_days ?env ?m [5, 1, 2]). o' = Returns (False, []) (clamped ?m)"
    by (elim conjE)
  from inst have idx: "current_date_index (sim (clamped ?m)) = int (length (trading_dates (sim ?m))) - 1"
    by (elim conjE)
  from inst have cur: "current_date (sim (clamped ?m)) = current_date (sim ?m)"
    by (elim conjE)
  from inst have pf: "portfolio (sim (clamped ?m)) = portfolio (sim ?m)"
    by (elim conjE)
  from nonempty all
  have "set (advance_days ?env ?m [5, 1, 2]) = {Returns (False, []) (clamped ?m)}"
    by (rule singleton_setI)
  moreover have "current_date_index (sim (clamped ?m)) = 3"
    unfolding idx by (simp add: example_machine_def)
  moreover have "current_date (sim (clamped ?m)) = Some 10"
    unfolding cur by (simp add: example_machine_def)
  moreover have "portfolio (sim (clamped ?m)) = Portfolio_init 1000"
    unfolding pf by (simp add: example_machine_def)
  ultimately show ?thesis by (intro conjI)
qed

text \<open>
  C9. When the current index is below \<open>len - 1\<close> and \<open>advance_day n\<close> overshoots the
  last trading date, the index becomes \<open>len - 1\<close> (so it changes), while the current
  date, the portfolio and the store stay as they were and no event is produced.
  Consequently, if the current date was the trading date at the index before the call
  and the trading dates are distinct, it is not the trading date at the index after it;
  a later call that does advance (returns \<open>True\<close>) makes the two agree again.
\<close>

theorem advance_day_overshoot_desync:
  "current_date_index (sim m) < int (length (trading_dates (sim m))) - 1 \<Longrightarrow>
   int (length (trading_dates (sim m))) \<le> current_date_index (sim m) + n \<Longrightarrow>
     advance_day env m n = Returns (False, []) (clamped m)
   \<and> current_date_index (sim (clamped m)) = int (length (trading_dates (sim m))) - 1
   \<and> current_date_index (sim (clamped m)) \<noteq> current_date_index (sim m)
   \<and> current_date (sim (clamped m)) = current_date (sim m)
   \<and> trading_dates (sim (clamped m)) = trading_dates (sim m)
   \<and> portfolio (sim (clamped m)) = portfolio (sim m)
   \<and> heap (clamped m) = heap m
   \<and> (0 \<le> current_date_index (sim m) \<and> distinct (trading_dates (sim m))
        \<and> current_date (sim m)
            = list_index (trading_dates (sim m)) (current_date_index (sim m)) \<longrightarrow>
        current_date (sim (clamped m))
          \<noteq> list_index (trading_dates (sim (clamped m))) (current_date_index (sim (clamped m))))
   \<and> (advance_day env (clamped m) k = Returns (True, evs) m' \<longrightarrow>
        current_date (sim m')
          = list_index (trading_dates (sim m')) (current_date_index (sim m')))"
proof -
  assume below: "current_date_index (sim m) < int (length (trading_dates (sim m))) - 1"
    and over: "int (length (trading_dates (sim m))) \<le> current_date_index (sim m) + n"
  let ?i = "current_date_index (sim m)"
  let ?ds = "trading_dates (sim m)"
  have first: "advance_day env m n = Returns (False, []) (clamped m)"
    using over by (rule advance_day_overshoot)
  have desync: "current_date (sim (clamped m))
          \<noteq> list_index (trading_dates (sim (clamped m))) (current_date_index (sim (clamped m)))"
    if "0 \<le> ?i \<and> distinct ?ds \<and> current_date (sim m) = list_index ?ds ?i"
  proof -
    from that below have i: "nat ?i < length ?ds" "nat ?i \<noteq> length ?ds - 1" by auto
    from that below have "list_index ?ds ?i = Some (?ds ! nat ?i)"
      by (simp add: list_index_def)
    moreover from below that have "list_index ?ds (int (length ?ds) - 1) = Some (?ds ! (length ?ds - 1))"
      by (auto simp: list_index_def nat_diff_distrib)
    moreover have "?ds ! nat ?i \<noteq> ?ds ! (length ?ds - 1)"
      using that i by (simp add: nth_eq_iff_index_eq)
    ultimately show ?thesis using that by (simp add: clamped_fields)
  qed
  have resync: "current_date (sim m')
          = list_index (trading_dates (sim m')) (current_date_index (sim m'))"
    if "advance_day env (clamped m) k = Returns (True, evs) m'"
    using advance_day_in_range_date [OF that] by simp
  from first below desync resync show ?thesis by (simp add: clamped_fields)
qed

theorem advance_day_overshoot_desync_witness:
  "advance_day (example_environment 52)
       (example_machine (\<lambda>_. aapl_put) (Portfolio_init 1000) 1) 5
     = Returns (False, []) (clamped (example_machine (\<lambda>_. aapl_put) (Portfolio_init 1000) 1))
   \<and> current_date_index (sim (clamped (example_machine (\<lambda>_. aapl_put) (Portfolio_init 1000) 1)))
       = 3
   \<and> current_date (sim (clamped (example_machine (\<lambda>_. aapl_put) (Portfolio_init 1000) 1)))
       = Some 10
   \<and> list_index (trading_dates (sim (clamped (example_machine (\<lambda>_. aapl_put) (Portfolio_init 1000) 1))))
        3 = Some 30
   \<and> current_date (sim (state_of (advance_day (example_environment 52)
         (clamped (example_machine (\<lambda>_. aapl_put) (Portfolio_init 1000) 1)) 0))) = Some 30"
proof -
  let ?m = "example_machine (\<lambda>_. aapl_put) (Portfolio_init 1000) 1"
  let ?env = "example_environment 52"
  let ?m' = "(clamped ?m)\<lparr>sim := (sim (clamped ?m))\<lparr>current_date := Some 30\<rparr>\<rparr>"
  have below: "current_date_index (sim ?m) < int (length (trading_dates (sim ?m))) - 1"
    by (simp add: example_machine_def)
  have over: "int (length (trading_dates (sim ?m))) \<le> current_date_index (sim ?m) + 5"
    by (simp add: example_machine_def)
  have sync: "0 \<le> current_date_index (sim ?m) \<and> distinct (trading_dates (sim ?m))
        \<and> current_date (sim ?m) = list_index (trading_dates (sim ?m)) (current_date_index (sim ?m))"
    by (simp add: example_machine_def list_index_def)
  have again: "advance_day ?env (clamped ?m) 0 = Returns (True, []) ?m'"
    by (simp add: advance_day_def clamped_def example_machine_def list_index_def
          process_expirations_def Portfolio_init_def Let_def)
  note inst = advance_day_overshoot_desync
                [OF below over, where env = ?env and k = 0 and evs = "[]" and m' = "?m'"]
  from inst have a: "advance_day ?env ?m 5 = Returns (False, []) (clamped ?m)" by blast
  from inst again have b: "current_date (sim ?m')
          = list_index (trading_dates (sim ?m')) (current_date_index (sim ?m'))" by blast
  from inst sync have c: "current_date (sim (clamped ?m))
          \<noteq> list_index (trading_dates (sim (clamped ?m))) (current_date_index (sim (clamped ?m)))"
    by blast
  show ?thesis unfolding a again
    by (simp add: clamped_def example_machine_def list_index_def)
qed

subsection \<open>Further properties\<close>

text \<open>
  Put-call parity over the reals: for \<open>T > 0\<close> and a distribution function with
  \<open>cdf (- x) = 1 - cdf x\<close>, whenever both prices are positive (so neither was floored
  at 0), the call price minus the put price is exactly \<open>S - K * exp (- r * T)\<close>.
\<close>

theorem put_call_parity_unfloored:
  "0 < T \<Longrightarrow> (\<forall>x. cdf (- x) = 1 - cdf x) \<Longrightarrow>
   call_price cdf S K T r sigma = Inr c \<Longrightarrow> put_price cdf S K T r sigma = Inr p \<Longrightarrow>
   0 < c \<Longrightarrow> 0 < p \<Longrightarrow>
   c - p = S - K * exp (- r * T)"
proof -
  assume T: "0 < T" and sym: "\<forall>x. cdf (- x) = 1 - cdf x"
    and c: "call_price cdf S K T r sigma = Inr c" and p: "put_price cdf S K T r sigma = Inr p"
    and pos: "0 < c" "0 < p"
  from T c obtain d1 where d1: "calculate_d1 S K T r sigma = Inr d1"
    by (cases "calculate_d1 S K T r sigma") (auto simp: call_price_def)
  let ?d2 = "calculate_d2 d1 sigma T"
  from T c d1 pos(1) have c': "c = S * cdf d1 - K * exp (- r * T) * cdf ?d2"
    by (auto simp: call_price_def Let_def max_def split: if_splits)
  from T p d1 pos(2) have p': "p = K * exp (- r * T) * cdf (- ?d2) - S * cdf (- d1)"
    by (auto simp: put_price_def Let_def max_def split: if_splits)
  have s1: "cdf (- d1) = 1 - cdf d1" and s2: "cdf (- ?d2) = 1 - cdf ?d2"
    using sym by blast+
  show ?thesis unfolding c' p' s1 s2 by (simp add: algebra_simps)
qed

theorem put_call_parity_unfloored_witness:
  "call_price example_cdf 100 100 1 0 2 = Inr 50
   \<and> put_price example_cdf 100 100 1 0 2 = Inr 50
   \<and> (50::real) - 50 = 100 - 100 * exp (- 0 * 1)"
proof -
  have sym: "\<forall>x. example_cdf (- x) = 1 - example_cdf x"
    by (simp add: example_cdf_def)
  have c: "call_price example_cdf 100 100 1 0 2 = Inr 50"
    by (simp add: call_price_def calculate_d1_def calculate_d2_def example_cdf_def Let_def)
  have p: "put_price example_cdf 100 100 1 0 2 = Inr 50"
    by (simp add: put_price_def calculate_d1_def calculate_d2_def example_cdf_def Let_def)
  have "(0::real) < 1" "(0::real) < 50" by simp_all
  from put_call_parity_unfloored [OF this(1) sym c p this(2) this(2)] c p
  show ?thesis by simp
qed

lemma expire_worthless_general:
  assumes "r \<in> set (options_positions pf)"
  shows "\<exists>rest.
     list_remove (h(r := (h r)\<lparr>status := EXPIRED_WORTHLESS, exit_date := Some d\<rparr>))
        (options_positions pf) r = Some rest
   \<and> expire_worthless (h, pf) r d =
     Returns ()
       (h(r := (h r)\<lparr>status := EXPIRED_WORTHLESS, exit_date := Some d\<rparr>),
        pf\<lparr>closed_positions := closed_positions pf @ [r], options_positions := rest\<rparr>)"
proof -
  let ?h1 = "h(r := (h r)\<lparr>status := EXPIRED_WORTHLESS, exit_date := Some d\<rparr>)"
  obtain rest where rest: "list_remove ?h1 (options_positions pf) r = Some rest"
    using list_remove_member [OF assms(1), of ?h1] by blast
  then show ?thesis
    by (simp add: expire_worthless_def Let_def)
qed

text \<open>
  \<open>expire_worthless\<close> on an open contract marks it \<open>EXPIRED_WORTHLESS\<close> with its
  exit date, appends it to the closed positions, takes one entry out of the open ones
  and moves no cash: cash, holdings and transaction log stay as they were.
\<close>

theorem expire_worthless_moves_no_cash:
  "r \<in> set (options_positions pf) \<Longrightarrow>
   \<exists>pf'. expire_worthless (h, pf) r d =
           Returns () (h(r := (h r)\<lparr>status := EXPIRED_WORTHLESS, exit_date := Some d\<rparr>), pf')
     \<and> cash pf' = cash pf
     \<and> stock_positions pf' = stock_positions pf
     \<and> transaction_history pf' = transaction_history pf
     \<and> closed_positions pf' = closed_positions pf @ [r]
     \<and> Suc (length (options_positions pf')) = length (options_positions pf)"
proof -
  assume r: "r \<in> set (options_positions pf)"
  from expire_worthless_general [where h = h and r = r and pf = pf and d = d, OF r]
  obtain rest where rest: "list_remove (h(r := (h r)\<lparr>status := EXPIRED_WORTHLESS, exit_date := Some d\<rparr>))
        (options_positions pf) r = Some rest"
    and ret: "expire_worthless (h, pf) r d =
     Returns ()
       (h(r := (h r)\<lparr>status := EXPIRED_WORTHLESS, exit_date := Some d\<rparr>),
        pf\<lparr>closed_positions := closed_positions pf @ [r], options_positions := rest\<rparr>)"
    by blast
  from list_remove_values [OF rest] have "Suc (length rest) = length (options_positions pf)"
    by simp
  with ret show ?thesis by simp
qed

theorem expire_worthless_moves_no_cash_witness:
  "cash (snd (state_of (expire_worthless
      (\<lambda>_. aapl_put, (Portfolio_init 1000)\<lparr>options_positions := [0]\<rparr>) 0 30))) = 1000
   \<and> closed_positions (snd (state_of (expire_worthless
      (\<lambda>_. aapl_put, (Portfolio_init 1000)\<lparr>options_positions := [0]\<rparr>) 0 30))) = [0]
   \<and> options_positions (snd (state_of (expire_worthless
      (\<lambda>_. aapl_put, (Portfolio_init 1000)\<lparr>options_positions := [0]\<rparr>) 0 30))) = []
   \<and> status (fst (state_of (expire_worthless
      (\<lambda>_. aapl_put, (Portfolio_init 1000)\<lparr>options_positions := [0]\<rparr>) 0 30)) 0)
       = EXPIRED_WORTHLESS"
  using expire_worthless_moves_no_cash
          [where r = 0 and pf = "(Portfolio_init 1000)\<lparr>options_positions := [0]\<rparr>"
             and h = "\<lambda>_. aapl_put" and d = 30]
  by (auto simp: Portfolio_init_def)

text \<open>
  \<open>assign_call\<close> on an open contract whose holding has exactly \<open>contracts * 100\<close>
  shares deletes the holding's entry (the symbol is no longer present) and credits the
  proceeds.
\<close>

theorem assign_call_exact_coverage_removes_holding:
  "r \<in> set (options_positions pf) \<Longrightarrow>
   stock_positions pf (symbol (h r)) = Some sp \<Longrightarrow>
   shares sp = contracts (h r) * 100 \<Longrightarrow>
   \<exists>pf'. assign_call now (h, pf) r px d =
           Returns ()
             (h(r := (h r)\<lparr>status := CALLED_AWAY, exit_date := Some d,
                              stock_price_at_exit := px\<rparr>), pf')
     \<and> stock_positions pf' = (stock_positions pf)(symbol (h r) := None)
     \<and> stock_positions pf' (symbol (h r)) = None
     \<and> cash pf' = cash pf + strike (h r) * of_int (contracts (h r)) * 100"
proof -
  assume r: "r \<in> set (options_positions pf)"
    and sp: "stock_positions pf (symbol (h r)) = Some sp"
    and exact: "shares sp = contracts (h r) * 100"
  from assign_call_general [where h = h and r = r and pf = pf and d = d and px = px and now = now, OF r]
  obtain rest where "assign_call now (h, pf) r px d =
     Returns ()
       (h(r := (h r)\<lparr>status := CALLED_AWAY, exit_date := Some d, stock_price_at_exit := px\<rparr>),
        pf\<lparr>stock_positions := (stock_positions pf)(symbol (h r) := None),
           cash := cash pf + strike (h r) * of_int (contracts (h r)) * 100,
           transaction_history := transaction_history pf @
             [\<lparr>txn_type = ''cash_in'',
               amount = strike (h r) * of_int (contracts (h r)) * 100,
               description = ''Call assigned: sold '' @ show_int (contracts (h r) * 100)
                               @ '' shares of '' @ symbol (h r),
               timestamp = now\<rparr>],
           closed_positions := closed_positions pf @ [r],
           options_positions := rest\<rparr>)"
    using sp exact by auto
  then show ?thesis by simp
qed

theorem assign_call_exact_coverage_removes_holding_witness:
  "stock_positions (snd (state_of (assign_call 7
      (\<lambda>_. aapl_call,
       (Portfolio_init 0)\<lparr>options_positions := [0],
                            stock_positions := [''AAPL'' \<mapsto> hundred_shares]\<rparr>) 0 60 30))) ''AAPL''
     = None
   \<and> cash (snd (state_of (assign_call 7
      (\<lambda>_. aapl_call,
       (Portfolio_init 0)\<lparr>options_positions := [0],
                            stock_positions := [''AAPL'' \<mapsto> hundred_shares]\<rparr>) 0 60 30))) = 5500"
proof -
  let ?h = "\<lambda>_::ref. aapl_call"
  let ?pf = "(Portfolio_init 0)\<lparr>options_positions := [0],
                                  stock_positions := [''AAPL'' \<mapsto> hundred_shares]\<rparr>"
  have r: "0 \<in> set (options_positions ?pf)" by simp
  have sp: "stock_positions ?pf (symbol (?h 0)) = Some hundred_shares"
    by (simp add: aapl_call_def)
  have exact: "shares hundred_shares = contracts (?h 0) * 100"
    by (simp add: aapl_call_def hundred_shares_def)
  from assign_call_exact_coverage_removes_holding
         [where h = ?h and pf = ?pf and r = 0 and now = 7 and px = 60 and d = 30, OF r sp exact]
  show ?thesis by (auto simp: aapl_call_def Portfolio_init_def)
qed

end
